theory Spec2Isabelle
  imports Main "HOL-Library.Sublist"
begin

section \<open>The customer service of \<^verbatim>\<open>main.py\<close>\<close>

text \<open>
  \<^verbatim>\<open>main.py\<close> is a FastAPI application with one pydantic model (\<^verbatim>\<open>Customer\<close>), a
  connection factory (\<^verbatim>\<open>get_db_connection\<close>) and two handlers (\<^verbatim>\<open>create_customer\<close>,
  \<^verbatim>\<open>get_customers\<close>). The handlers are embedded as state-passing functions over a
  model of what they talk to: the process environment, and the database behind the
  pyodbc driver. Every driver call that can raise returns a sum, \<open>Inl\<close> carrying the
  driver's error.
\<close>

subsection \<open>The database behind the driver\<close>

text \<open>A column value as pyodbc hands it back: \<^verbatim>\<open>None\<close> for SQL NULL, a \<^verbatim>\<open>str\<close> otherwise.\<close>

datatype sql_value = Null | Text string

text \<open>A row of \<^verbatim>\<open>customers\<close>, projected to its columns \<^verbatim>\<open>name\<close> and \<^verbatim>\<open>email\<close>.\<close>

type_synonym row = "sql_value \<times> sql_value"

text \<open>An exception of the driver: SQLSTATE and message.\<close>

datatype pyodbc_error = PyodbcError string string

text \<open>The calls \<^verbatim>\<open>main.py\<close> can make on the driver, as they are logged.\<close>

datatype driver_call =
    Connect string
  | Cursor
  | Execute string "string list"
  | Commit
  | Fetchall
  | Close

text \<open>
  The state outside the process: the committed rows of \<^verbatim>\<open>customers\<close> in the order
  in which the database scans them, the open connections (each with the rows of its
  uncommitted transaction; pyodbc connects with autocommit off), the next connection
  handle, and the log of driver calls.
\<close>

record world =
  db_table :: "row list"
  db_conns :: "nat \<rightharpoonup> row list"
  db_next :: nat
  db_calls :: "driver_call list"

text \<open>
  Whether a driver call fails is decided outside the program (network, credentials,
  constraints of the schema): a parameter, which sees the committed table and the call.
\<close>

type_synonym fault = "row list \<Rightarrow> driver_call \<Rightarrow> pyodbc_error option"

text \<open>A cursor object: its connection, and the result set of its last statement.\<close>

record cursor =
  cur_conn :: nat
  cur_rows :: "row list option"

definition logged :: "world \<Rightarrow> driver_call \<Rightarrow> world" where
  "logged w c = w\<lparr>db_calls := db_calls w @ [c]\<rparr>"

definition insert_sql :: string where
  "insert_sql = ''INSERT INTO customers (name, email) VALUES (?, ?)''"

definition select_sql :: string where
  "select_sql = ''SELECT name, email FROM customers''"

definition closed_error :: pyodbc_error where
  "closed_error = PyodbcError ''HY000'' ''Attempt to use a closed connection.''"

definition params_error :: pyodbc_error where
  "params_error = PyodbcError ''HY000'' ''The SQL contains a different number of parameter markers.''"

definition syntax_error :: pyodbc_error where
  "syntax_error = PyodbcError ''42000'' ''Statement not understood.''"

definition no_results_error :: pyodbc_error where
  "no_results_error = PyodbcError ''HY000'' ''No results.  Previous SQL was not a query.''"

text \<open>\<^verbatim>\<open>pyodbc.connect(conn_str)\<close>: a fresh handle with an empty transaction.\<close>

definition connect :: "fault \<Rightarrow> world \<Rightarrow> string \<Rightarrow> world \<times> (pyodbc_error + nat)" where
  "connect f w conn_str =
     (let w1 = logged w (Connect conn_str) in
      case f (db_table w) (Connect conn_str) of
        Some e \<Rightarrow> (w1, Inl e)
      | None \<Rightarrow>
          (w1\<lparr>db_conns := (db_conns w1)(db_next w1 \<mapsto> []), db_next := Suc (db_next w1)\<rparr>,
           Inr (db_next w1)))"

text \<open>\<^verbatim>\<open>conn.cursor()\<close>.\<close>

definition cursor :: "fault \<Rightarrow> world \<Rightarrow> nat \<Rightarrow> world \<times> (pyodbc_error + cursor)" where
  "cursor f w conn =
     (let w1 = logged w Cursor in
      case f (db_table w) Cursor of
        Some e \<Rightarrow> (w1, Inl e)
      | None \<Rightarrow>
          (case db_conns w1 conn of
             None \<Rightarrow> (w1, Inl closed_error)
           | Some _ \<Rightarrow> (w1, Inr \<lparr>cur_conn = conn, cur_rows = None\<rparr>)))"

text \<open>
  \<^verbatim>\<open>cursor.execute(sql, params)\<close>. The database understands the two statements of
  \<^verbatim>\<open>main.py\<close>: the insert binds its two markers to the parameters and adds the row to
  the connection's transaction; the select yields the committed rows followed by the
  connection's own uncommitted ones. The SQL text and the parameters travel apart.
\<close>

definition execute ::
  "fault \<Rightarrow> world \<Rightarrow> cursor \<Rightarrow> string \<Rightarrow> string list \<Rightarrow> world \<times> (pyodbc_error + cursor)" where
  "execute f w cur sql params =
     (let w1 = logged w (Execute sql params) in
      case f (db_table w) (Execute sql params) of
        Some e \<Rightarrow> (w1, Inl e)
      | None \<Rightarrow>
          (case db_conns w1 (cur_conn cur) of
             None \<Rightarrow> (w1, Inl closed_error)
           | Some pending \<Rightarrow>
               if sql = insert_sql then
                 (case params of
                    [n, e] \<Rightarrow>
                      (w1\<lparr>db_conns := (db_conns w1)(cur_conn cur \<mapsto> pending @ [(Text n, Text e)])\<rparr>,
                       Inr (cur\<lparr>cur_rows := None\<rparr>))
                  | _ \<Rightarrow> (w1, Inl params_error))
               else if sql = select_sql then
                 (case params of
                    [] \<Rightarrow> (w1, Inr (cur\<lparr>cur_rows := Some (db_table w1 @ pending)\<rparr>))
                  | _ \<Rightarrow> (w1, Inl params_error))
               else (w1, Inl syntax_error)))"

text \<open>\<^verbatim>\<open>conn.commit()\<close>: the connection's transaction becomes part of the table.\<close>

definition commit :: "fault \<Rightarrow> world \<Rightarrow> nat \<Rightarrow> world \<times> (pyodbc_error + unit)" where
  "commit f w conn =
     (let w1 = logged w Commit in
      case f (db_table w) Commit of
        Some e \<Rightarrow> (w1, Inl e)
      | None \<Rightarrow>
          (case db_conns w1 conn of
             None \<Rightarrow> (w1, Inl closed_error)
           | Some pending \<Rightarrow>
               (w1\<lparr>db_table := db_table w1 @ pending, db_conns := (db_conns w1)(conn \<mapsto> [])\<rparr>,
                Inr ())))"

text \<open>\<^verbatim>\<open>cursor.fetchall()\<close>.\<close>

definition fetchall :: "fault \<Rightarrow> world \<Rightarrow> cursor \<Rightarrow> world \<times> (pyodbc_error + row list)" where
  "fetchall f w cur =
     (let w1 = logged w Fetchall in
      case f (db_table w) Fetchall of
        Some e \<Rightarrow> (w1, Inl e)
      | None \<Rightarrow>
          (case cur_rows cur of
             None \<Rightarrow> (w1, Inl no_results_error)
           | Some rows \<Rightarrow> (w1, Inr rows)))"

text \<open>
  \<^verbatim>\<open>conn.close()\<close>: the handle is released and its uncommitted rows are rolled back.
  The driver offers it; \<^verbatim>\<open>main.py\<close> has no call of it. The release of a connection
  object that is dropped without a close is not modelled, so \<open>db_conns\<close> after a
  handler says which handles the handler's own calls left open, not which the driver
  still holds once the handler's locals are gone.
\<close>

definition close :: "fault \<Rightarrow> world \<Rightarrow> nat \<Rightarrow> world \<times> (pyodbc_error + unit)" where
  "close f w conn =
     (let w1 = logged w Close in
      case f (db_table w) Close of
        Some e \<Rightarrow> (w1, Inl e)
      | None \<Rightarrow>
          (case db_conns w1 conn of
             None \<Rightarrow> (w1, Inl closed_error)
           | Some _ \<Rightarrow> (w1\<lparr>db_conns := (db_conns w1)(conn := None)\<rparr>, Inr ())))"

subsection \<open>The \<^verbatim>\<open>Customer\<close> model\<close>

text \<open>
  \<^verbatim>\<open>class Customer(BaseModel): name: str; email: str\<close>. FastAPI hands pydantic the
  request body as \<^verbatim>\<open>json.loads\<close> parsed it; an object is given by its items (a Python
  dict: one item per key). Both fields are declared \<^verbatim>\<open>str\<close>, with no constraint and no
  \<^verbatim>\<open>EmailStr\<close>; the model has no \<^verbatim>\<open>extra\<close> setting, so pydantic's default (ignore) holds.
  A \<^verbatim>\<open>str\<close> field takes a JSON string and nothing else (pydantic 2).
\<close>

datatype json =
    JNull
  | JBool bool
  | JNum int
  | JStr string
  | JArr "json list"
  | JObj "(string \<times> json) list"

record customer =
  name :: string
  email :: string

datatype validation_error =
    Missing string
  | StringType string
  | ModelType

definition str_field :: "(string \<times> json) list \<Rightarrow> string \<Rightarrow> validation_error + string" where
  "str_field items k =
     (case map_of items k of
        None \<Rightarrow> Inl (Missing k)
      | Some (JStr s) \<Rightarrow> Inr s
      | Some _ \<Rightarrow> Inl (StringType k))"

definition errors_of :: "validation_error + 'a \<Rightarrow> validation_error list" where
  "errors_of r = (case r of Inl e \<Rightarrow> [e] | Inr _ \<Rightarrow> [])"

definition validate_Customer :: "json \<Rightarrow> validation_error list + customer" where
  "validate_Customer body =
     (case body of
        JObj items \<Rightarrow>
          (case (str_field items ''name'', str_field items ''email'') of
             (Inr n, Inr e) \<Rightarrow> Inr \<lparr>name = n, email = e\<rparr>
           | (rn, re) \<Rightarrow> Inl (errors_of rn @ errors_of re))
      | _ \<Rightarrow> Inl [ModelType])"

subsection \<open>\<^verbatim>\<open>get_db_connection\<close>\<close>

text \<open>\<^verbatim>\<open>os.getenv(key, default)\<close>: the variable's value when it is set, else the default.\<close>

definition getenv :: "(string \<rightharpoonup> string) \<Rightarrow> string \<Rightarrow> string \<Rightarrow> string" where
  "getenv env key dflt = (case env key of None \<Rightarrow> dflt | Some v \<Rightarrow> v)"

definition conn_str :: "(string \<rightharpoonup> string) \<Rightarrow> string" where
  "conn_str env =
     (let server = getenv env ''SQL_SERVER'' ''cms-sql-server2025.database.windows.net'';
          database = getenv env ''SQL_DB'' ''cms-db'';
          username = getenv env ''SQL_USER'' ''sqladmin'';
          password = getenv env ''SQL_PASSWORD'' ''P@ssw0rd123!'';
          driver = ''{ODBC Driver 18 for SQL Server}''
      in ''DRIVER='' @ driver @ '';''
         @ ''SERVER='' @ server @ '';''
         @ ''DATABASE='' @ database @ '';''
         @ ''UID='' @ username @ '';''
         @ ''PWD='' @ password @ '';''
         @ ''Encrypt=yes;TrustServerCertificate=no;Connection Timeout=30;'')"

definition get_db_connection ::
  "fault \<Rightarrow> (string \<rightharpoonup> string) \<Rightarrow> world \<Rightarrow> world \<times> (pyodbc_error + nat)" where
  "get_db_connection f env w = connect f w (conn_str env)"

subsection \<open>The handlers\<close>

text \<open>
  \<^verbatim>\<open>create_customer\<close>: connect, cursor, execute the insert with the parameters
  \<^verbatim>\<open>(customer.name, customer.email)\<close>, commit, return the dict. An exception of any
  call leaves the function at once (there is no \<^verbatim>\<open>try\<close> in \<^verbatim>\<open>main.py\<close>).
\<close>

definition create_customer ::
  "fault \<Rightarrow> (string \<rightharpoonup> string) \<Rightarrow> world \<Rightarrow> customer
     \<Rightarrow> world \<times> (pyodbc_error + (string \<times> string) list)" where
  "create_customer f env w customer =
     (case get_db_connection f env w of
        (w1, Inl e) \<Rightarrow> (w1, Inl e)
      | (w1, Inr conn) \<Rightarrow>
     (case cursor f w1 conn of
        (w2, Inl e) \<Rightarrow> (w2, Inl e)
      | (w2, Inr cur) \<Rightarrow>
     (case execute f w2 cur insert_sql [name customer, email customer] of
        (w3, Inl e) \<Rightarrow> (w3, Inl e)
      | (w3, Inr cur') \<Rightarrow>
     (case commit f w3 conn of
        (w4, Inl e) \<Rightarrow> (w4, Inl e)
      | (w4, Inr _) \<Rightarrow>
          (w4, Inr [(''message'', ''Customer created''), (''name'', name customer)])))))"

text \<open>The dict \<^verbatim>\<open>{"name": row[0], "email": row[1]}\<close> of the list comprehension.\<close>

definition row_dict :: "row \<Rightarrow> (string \<times> sql_value) list" where
  "row_dict r = [(''name'', fst r), (''email'', snd r)]"

definition get_customers ::
  "fault \<Rightarrow> (string \<rightharpoonup> string) \<Rightarrow> world
     \<Rightarrow> world \<times> (pyodbc_error + (string \<times> sql_value) list list)" where
  "get_customers f env w =
     (case get_db_connection f env w of
        (w1, Inl e) \<Rightarrow> (w1, Inl e)
      | (w1, Inr conn) \<Rightarrow>
     (case cursor f w1 conn of
        (w2, Inl e) \<Rightarrow> (w2, Inl e)
      | (w2, Inr cur) \<Rightarrow>
     (case execute f w2 cur select_sql [] of
        (w3, Inl e) \<Rightarrow> (w3, Inl e)
      | (w3, Inr cur') \<Rightarrow>
     (case fetchall f w3 cur' of
        (w4, Inl e) \<Rightarrow> (w4, Inl e)
      | (w4, Inr rows) \<Rightarrow> (w4, Inr (map row_dict rows))))))"

subsection \<open>The routes\<close>

text \<open>
  \<^verbatim>\<open>@app.post("/customers/")\<close> with the parameter \<^verbatim>\<open>customer: Customer\<close>: FastAPI
  validates the body first and answers 422 without calling the handler when pydantic
  rejects it; an exception leaving the handler is answered with 500.
  \<^verbatim>\<open>@app.get("/customers/")\<close> has no input.
\<close>

datatype 'a response =
    Ok200 'a
  | Unprocessable422 "validation_error list"
  | ServerError500 pyodbc_error

definition post_customers ::
  "fault \<Rightarrow> (string \<rightharpoonup> string) \<Rightarrow> world \<Rightarrow> json
     \<Rightarrow> world \<times> (string \<times> string) list response" where
  "post_customers f env w body =
     (case validate_Customer body of
        Inl errs \<Rightarrow> (w, Unprocessable422 errs)
      | Inr customer \<Rightarrow>
          (case create_customer f env w customer of
             (w', Inl e) \<Rightarrow> (w', ServerError500 e)
           | (w', Inr r) \<Rightarrow> (w', Ok200 r)))"

definition get_customers_route ::
  "fault \<Rightarrow> (string \<rightharpoonup> string) \<Rightarrow> world
     \<Rightarrow> world \<times> (string \<times> sql_value) list list response" where
  "get_customers_route f env w =
     (case get_customers f env w of
        (w', Inl e) \<Rightarrow> (w', ServerError500 e)
      | (w', Inr r) \<Rightarrow> (w', Ok200 r))"

text \<open>The driver calls a handler made: what it added to the log.\<close>

definition issued :: "world \<Rightarrow> world \<Rightarrow> driver_call list" where
  "issued w w' = drop (length (db_calls w)) (db_calls w')"

text \<open>Reading a listed dict back as the pair of its two values.\<close>

definition dict_pair :: "(string \<times> sql_value) list \<Rightarrow> row option" where
  "dict_pair d =
     (case (map_of d ''name'', map_of d ''email'') of
        (Some n, Some e) \<Rightarrow> Some (n, e)
      | _ \<Rightarrow> None)"

fun is_execute :: "driver_call \<Rightarrow> bool" where
  "is_execute (Execute sql params) = True"
| "is_execute _ = False"

subsection \<open>Concrete inputs\<close>

definition no_fault :: fault where
  "no_fault = (\<lambda>t c. None)"

definition empty_world :: world where
  "empty_world = \<lparr>db_table = [], db_conns = Map.empty, db_next = 0, db_calls = []\<rparr>"

definition ada :: customer where
  "ada = \<lparr>name = ''Ada Lovelace'', email = ''ada@example.com''\<rparr>"

definition ada_body :: json where
  "ada_body = JObj [(''name'', JStr ''Ada Lovelace''), (''email'', JStr ''ada@example.com'')]"

definition ada_row :: row where
  "ada_row = (Text ''Ada Lovelace'', Text ''ada@example.com'')"

definition ada_world :: world where
  "ada_world = \<lparr>db_table = [ada_row], db_conns = Map.empty, db_next = 0, db_calls = []\<rparr>"

definition conn_refused :: pyodbc_error where
  "conn_refused = PyodbcError ''08001'' ''Unable to connect to data source''"

definition unreachable :: fault where
  "unreachable = (\<lambda>t c. case c of Connect s \<Rightarrow> Some conn_refused | _ \<Rightarrow> None)"

definition constraint_violated :: pyodbc_error where
  "constraint_violated = PyodbcError ''23000'' ''Constraint violation''"

definition rejecting :: fault where
  "rejecting = (\<lambda>t c. case c of Execute sql ps \<Rightarrow> Some constraint_violated | _ \<Rightarrow> None)"

definition default_conn_str :: string where
  "default_conn_str =
     ''DRIVER={ODBC Driver 18 for SQL Server};SERVER=cms-sql-server2025.database.windows.net;DATABASE=cms-db;UID=sqladmin;PWD=P@ssw0rd123!;Encrypt=yes;TrustServerCertificate=no;Connection Timeout=30;''"

section \<open>What each handler does, path by path\<close>

text \<open>
  Each handler makes four driver calls in a row and leaves at the first that raises, so
  it has five paths. The committed table does not change before the commit, hence every
  call's fault is read at the table the handler started with.
\<close>



lemma select_not_insert: "select_sql \<noteq> insert_sql"
  by (simp add: select_sql_def insert_sql_def)

lemma create_customer_connect_fails:
  assumes "f (db_table w) (Connect (conn_str env)) = Some e"
  shows "create_customer f env w c = (logged w (Connect (conn_str env)), Inl e)"
  using assms by (simp add: create_customer_def get_db_connection_def connect_def)

lemma create_customer_cursor_fails:
  assumes "f (db_table w) (Connect (conn_str env)) = None"
      and "f (db_table w) Cursor = Some e"
  shows "create_customer f env w c =
           (w\<lparr>db_conns := (db_conns w)(db_next w \<mapsto> []), db_next := Suc (db_next w),
              db_calls := db_calls w @ [Connect (conn_str env), Cursor]\<rparr>, Inl e)"
  using assms
  by (simp add: create_customer_def get_db_connection_def connect_def cursor_def logged_def)

lemma create_customer_execute_fails:
  assumes "f (db_table w) (Connect (conn_str env)) = None"
      and "f (db_table w) Cursor = None"
      and "f (db_table w) (Execute insert_sql [name c, email c]) = Some e"
  shows "create_customer f env w c =
           (w\<lparr>db_conns := (db_conns w)(db_next w \<mapsto> []), db_next := Suc (db_next w),
              db_calls := db_calls w @ [Connect (conn_str env), Cursor,
                                        Execute insert_sql [name c, email c]]\<rparr>, Inl e)"
  using assms
  by (simp add: create_customer_def get_db_connection_def connect_def cursor_def execute_def
      logged_def)

lemma create_customer_commit_fails:
  assumes "f (db_table w) (Connect (conn_str env)) = None"
      and "f (db_table w) Cursor = None"
      and "f (db_table w) (Execute insert_sql [name c, email c]) = None"
      and "f (db_table w) Commit = Some e"
  shows "create_customer f env w c =
           (w\<lparr>db_conns := (db_conns w)(db_next w \<mapsto> [(Text (name c), Text (email c))]),
              db_next := Suc (db_next w),
              db_calls := db_calls w @ [Connect (conn_str env), Cursor,
                                        Execute insert_sql [name c, email c], Commit]\<rparr>, Inl e)"
  using assms
  by (simp add: create_customer_def get_db_connection_def connect_def cursor_def execute_def
      commit_def logged_def)

lemma create_customer_succeeds:
  assumes "f (db_table w) (Connect (conn_str env)) = None"
      and "f (db_table w) Cursor = None"
      and "f (db_table w) (Execute insert_sql [name c, email c]) = None"
      and "f (db_table w) Commit = None"
  shows "create_customer f env w c =
           (w\<lparr>db_table := db_table w @ [(Text (name c), Text (email c))],
              db_conns := (db_conns w)(db_next w \<mapsto> []),
              db_next := Suc (db_next w),
              db_calls := db_calls w @ [Connect (conn_str env), Cursor,
                                        Execute insert_sql [name c, email c], Commit]\<rparr>,
            Inr [(''message'', ''Customer created''), (''name'', name c)])"
  using assms
  by (simp add: create_customer_def get_db_connection_def connect_def cursor_def execute_def
      commit_def logged_def)

lemma get_customers_connect_fails:
  assumes "f (db_table w) (Connect (conn_str env)) = Some e"
  shows "get_customers f env w = (logged w (Connect (conn_str env)), Inl e)"
  using assms by (simp add: get_customers_def get_db_connection_def connect_def)

lemma get_customers_cursor_fails:
  assumes "f (db_table w) (Connect (conn_str env)) = None"
      and "f (db_table w) Cursor = Some e"
  shows "get_customers f env w =
           (w\<lparr>db_conns := (db_conns w)(db_next w \<mapsto> []), db_next := Suc (db_next w),
              db_calls := db_calls w @ [Connect (conn_str env), Cursor]\<rparr>, Inl e)"
  using assms
  by (simp add: get_customers_def get_db_connection_def connect_def cursor_def logged_def)

lemma get_customers_execute_fails:
  assumes "f (db_table w) (Connect (conn_str env)) = None"
      and "f (db_table w) Cursor = None"
      and "f (db_table w) (Execute select_sql []) = Some e"
  shows "get_customers f env w =
           (w\<lparr>db_conns := (db_conns w)(db_next w \<mapsto> []), db_next := Suc (db_next w),
              db_calls := db_calls w @ [Connect (conn_str env), Cursor,
                                        Execute select_sql []]\<rparr>, Inl e)"
  using assms
  by (simp add: get_customers_def get_db_connection_def connect_def cursor_def execute_def
      logged_def)

lemma get_customers_fetchall_fails:
  assumes "f (db_table w) (Connect (conn_str env)) = None"
      and "f (db_table w) Cursor = None"
      and "f (db_table w) (Execute select_sql []) = None"
      and "f (db_table w) Fetchall = Some e"
  shows "get_customers f env w =
           (w\<lparr>db_conns := (db_conns w)(db_next w \<mapsto> []), db_next := Suc (db_next w),
              db_calls := db_calls w @ [Connect (conn_str env), Cursor,
                                        Execute select_sql [], Fetchall]\<rparr>, Inl e)"
  using assms
  by (simp add: get_customers_def get_db_connection_def connect_def cursor_def execute_def
      fetchall_def logged_def select_not_insert)

lemma get_customers_succeeds:
  assumes "f (db_table w) (Connect (conn_str env)) = None"
      and "f (db_table w) Cursor = None"
      and "f (db_table w) (Execute select_sql []) = None"
      and "f (db_table w) Fetchall = None"
  shows "get_customers f env w =
           (w\<lparr>db_conns := (db_conns w)(db_next w \<mapsto> []), db_next := Suc (db_next w),
              db_calls := db_calls w @ [Connect (conn_str env), Cursor,
                                        Execute select_sql [], Fetchall]\<rparr>,
            Inr (map row_dict (db_table w)))"
  using assms
  by (simp add: get_customers_def get_db_connection_def connect_def cursor_def execute_def
      fetchall_def logged_def select_not_insert)


lemma create_customer_cases:
  obtains
    (connect_fails) e where
      "f (db_table w) (Connect (conn_str env)) = Some e"
      "create_customer f env w c = (logged w (Connect (conn_str env)), Inl e)"
  | (cursor_fails) e where
      "f (db_table w) (Connect (conn_str env)) = None"
      "f (db_table w) Cursor = Some e"
      "create_customer f env w c =
         (w\<lparr>db_conns := (db_conns w)(db_next w \<mapsto> []), db_next := Suc (db_next w),
            db_calls := db_calls w @ [Connect (conn_str env), Cursor]\<rparr>, Inl e)"
  | (execute_fails) e where
      "f (db_table w) (Connect (conn_str env)) = None"
      "f (db_table w) Cursor = None"
      "f (db_table w) (Execute insert_sql [name c, email c]) = Some e"
      "create_customer f env w c =
         (w\<lparr>db_conns := (db_conns w)(db_next w \<mapsto> []), db_next := Suc (db_next w),
            db_calls := db_calls w @ [Connect (conn_str env), Cursor,
                                      Execute insert_sql [name c, email c]]\<rparr>, Inl e)"
  | (commit_fails) e where
      "f (db_table w) (Connect (conn_str env)) = None"
      "f (db_table w) Cursor = None"
      "f (db_table w) (Execute insert_sql [name c, email c]) = None"
      "f (db_table w) Commit = Some e"
      "create_customer f env w c =
         (w\<lparr>db_conns := (db_conns w)(db_next w \<mapsto> [(Text (name c), Text (email c))]),
            db_next := Suc (db_next w),
            db_calls := db_calls w @ [Connect (conn_str env), Cursor,
                                      Execute insert_sql [name c, email c], Commit]\<rparr>, Inl e)"
  | (succeeds)
      "f (db_table w) (Connect (conn_str env)) = None"
      "f (db_table w) Cursor = None"
      "f (db_table w) (Execute insert_sql [name c, email c]) = None"
      "f (db_table w) Commit = None"
      "create_customer f env w c =
         (w\<lparr>db_table := db_table w @ [(Text (name c), Text (email c))],
            db_conns := (db_conns w)(db_next w \<mapsto> []),
            db_next := Suc (db_next w),
            db_calls := db_calls w @ [Connect (conn_str env), Cursor,
                                      Execute insert_sql [name c, email c], Commit]\<rparr>,
          Inr [(''message'', ''Customer created''), (''name'', name c)])"
proof (cases "f (db_table w) (Connect (conn_str env))")
  case (Some e)
  then show ?thesis using connect_fails create_customer_connect_fails by blast
next
  case c1: None
  show ?thesis
  proof (cases "f (db_table w) Cursor")
    case (Some e)
    then show ?thesis using c1 cursor_fails create_customer_cursor_fails by blast
  next
    case c2: None
    show ?thesis
    proof (cases "f (db_table w) (Execute insert_sql [name c, email c])")
      case (Some e)
      then show ?thesis using c1 c2 execute_fails create_customer_execute_fails by blast
    next
      case c3: None
      show ?thesis
      proof (cases "f (db_table w) Commit")
        case (Some e)
        then show ?thesis using c1 c2 c3 commit_fails create_customer_commit_fails by blast
      next
        case None
        then show ?thesis using c1 c2 c3 succeeds create_customer_succeeds by blast
      qed
    qed
  qed
qed

lemma get_customers_cases:
  obtains
    (connect_fails) e where
      "f (db_table w) (Connect (conn_str env)) = Some e"
      "get_customers f env w = (logged w (Connect (conn_str env)), Inl e)"
  | (cursor_fails) e where
      "f (db_table w) (Connect (conn_str env)) = None"
      "f (db_table w) Cursor = Some e"
      "get_customers f env w =
         (w\<lparr>db_conns := (db_conns w)(db_next w \<mapsto> []), db_next := Suc (db_next w),
            db_calls := db_calls w @ [Connect (conn_str env), Cursor]\<rparr>, Inl e)"
  | (execute_fails) e where
      "f (db_table w) (Connect (conn_str env)) = None"
      "f (db_table w) Cursor = None"
      "f (db_table w) (Execute select_sql []) = Some e"
      "get_customers f env w =
         (w\<lparr>db_conns := (db_conns w)(db_next w \<mapsto> []), db_next := Suc (db_next w),
            db_calls := db_calls w @ [Connect (conn_str env), Cursor,
                                      Execute select_sql []]\<rparr>, Inl e)"
  | (fetchall_fails) e where
      "f (db_table w) (Connect (conn_str env)) = None"
      "f (db_table w) Cursor = None"
      "f (db_table w) (Execute select_sql []) = None"
      "f (db_table w) Fetchall = Some e"
      "get_customers f env w =
         (w\<lparr>db_conns := (db_conns w)(db_next w \<mapsto> []), db_next := Suc (db_next w),
            db_calls := db_calls w @ [Connect (conn_str env), Cursor,
                                      Execute select_sql [], Fetchall]\<rparr>, Inl e)"
  | (succeeds)
      "f (db_table w) (Connect (conn_str env)) = None"
      "f (db_table w) Cursor = None"
      "f (db_table w) (Execute select_sql []) = None"
      "f (db_table w) Fetchall = None"
      "get_customers f env w =
         (w\<lparr>db_conns := (db_conns w)(db_next w \<mapsto> []), db_next := Suc (db_next w),
            db_calls := db_calls w @ [Connect (conn_str env), Cursor,
                                      Execute select_sql [], Fetchall]\<rparr>,
          Inr (map row_dict (db_table w)))"
proof (cases "f (db_table w) (Connect (conn_str env))")
  case (Some e)
  then show ?thesis using connect_fails get_customers_connect_fails by blast
next
  case c1: None
  show ?thesis
  proof (cases "f (db_table w) Cursor")
    case (Some e)
    then show ?thesis using c1 cursor_fails get_customers_cursor_fails by blast
  next
    case c2: None
    show ?thesis
    proof (cases "f (db_table w) (Execute select_sql [])")
      case (Some e)
      then show ?thesis using c1 c2 execute_fails get_customers_execute_fails by blast
    next
      case c3: None
      show ?thesis
      proof (cases "f (db_table w) Fetchall")
        case (Some e)
        then show ?thesis using c1 c2 c3 fetchall_fails get_customers_fetchall_fails by blast
      next
        case None
        then show ?thesis using c1 c2 c3 succeeds get_customers_succeeds by blast
      qed
    qed
  qed
qed

lemma issued_append [simp]:
  "db_calls w' = db_calls w @ xs \<Longrightarrow> issued w w' = xs"
  by (simp add: issued_def)

lemma no_fault_None: "no_fault t call = None"
  by (simp add: no_fault_def)

lemma unreachable_simps:
  "unreachable t (Connect s) = Some conn_refused"
  "unreachable t Cursor = None"
  "unreachable t (Execute sql ps) = None"
  "unreachable t Commit = None"
  "unreachable t Fetchall = None"
  by (simp_all add: unreachable_def)

lemma rejecting_simps:
  "rejecting t (Connect s) = None"
  "rejecting t Cursor = None"
  "rejecting t (Execute sql ps) = Some constraint_violated"
  "rejecting t Commit = None"
  "rejecting t Fetchall = None"
  by (simp_all add: rejecting_def)

lemma conn_str_empty: "conn_str Map.empty = default_conn_str"
  by (simp add: conn_str_def getenv_def default_conn_str_def)

lemma ada_fields: "name ada = ''Ada Lovelace''" "email ada = ''ada@example.com''"
  by (simp_all add: ada_def)

lemma empty_world_fields:
  "db_table empty_world = []" "db_next empty_world = 0" "db_calls empty_world = []"
  by (simp_all add: empty_world_def)

section \<open>Validation and listing: auxiliary facts\<close>

lemma row_dict_inj: "row_dict r = row_dict r' \<longleftrightarrow> r = r'"
  by (auto simp add: row_dict_def prod_eq_iff)

lemma count_list_row_dict: "count_list (map row_dict xs) (row_dict r) = count_list xs r"
  by (induction xs) (simp_all add: row_dict_inj)

lemma dict_pair_row_dict: "dict_pair (row_dict r) = Some r"
  by (simp add: dict_pair_def row_dict_def)

lemma get_customers_Inr:
  "snd (get_customers f env w) = Inr res \<Longrightarrow> res = map row_dict (db_table w)"
  by (cases rule: get_customers_cases [of f w env]) (simp_all add: logged_def)

lemma str_field_Inr: "str_field items k = Inr s \<longleftrightarrow> map_of items k = Some (JStr s)"
  by (simp add: str_field_def split: option.splits json.splits)

lemma validate_Customer_Inr:
  "validate_Customer body = Inr c \<longleftrightarrow>
     (\<exists>items. body = JObj items
        \<and> map_of items ''name'' = Some (JStr (name c))
        \<and> map_of items ''email'' = Some (JStr (email c)))"
proof (cases body)
  case (JObj items)
  show ?thesis
  proof (cases "str_field items ''name''")
    case (Inl a)
    then show ?thesis
      using str_field_Inr [of items "''name''" "name c"]
      by (simp add: validate_Customer_def JObj)
  next
    case n: (Inr n)
    show ?thesis
    proof (cases "str_field items ''email''")
      case (Inl a)
      then show ?thesis
        using str_field_Inr [of items "''email''" "email c"]
        by (simp add: validate_Customer_def JObj n)
    next
      case e: (Inr e)
      have "(\<lparr>name = n, email = e\<rparr> = c) = (n = name c \<and> e = email c)"
        by (cases c) auto
      then show ?thesis
        using n e str_field_Inr [of items "''name''" n] str_field_Inr [of items "''email''" e]
        by (auto simp add: validate_Customer_def JObj)
    qed
  qed
qed (simp_all add: validate_Customer_def)

lemma validate_Customer_Inl_nonempty: "validate_Customer body = Inl errs \<Longrightarrow> errs \<noteq> []"
  by (auto simp add: validate_Customer_def errors_of_def split: json.splits sum.splits)

lemma post_customers_valid:
  "validate_Customer body = Inr c \<Longrightarrow>
   post_customers f env w body =
     (case create_customer f env w c of
        (w', Inl e) \<Rightarrow> (w', ServerError500 e)
      | (w', Inr r) \<Rightarrow> (w', Ok200 r))"
  by (simp add: post_customers_def)

lemma post_customers_Ok200:
  assumes "validate_Customer body = Inr c"
      and "snd (post_customers f env w body) = Ok200 r"
  shows "db_table (fst (post_customers f env w body)) =
           db_table w @ [(Text (name c), Text (email c))]"
  using assms(2) unfolding post_customers_valid [OF assms(1)]
  by (cases rule: create_customer_cases [of f w env c]) (simp_all add: logged_def)

lemma validate_ada: "validate_Customer ada_body = Inr ada"
  by (simp add: validate_Customer_def str_field_def ada_body_def ada_def)

lemma post_ada_again:
  "post_customers no_fault Map.empty ada_world ada_body =
     (ada_world\<lparr>db_table := [ada_row, ada_row],
        db_conns := (db_conns ada_world)(db_next ada_world \<mapsto> []),
        db_next := Suc (db_next ada_world),
        db_calls := db_calls ada_world @ [Connect (conn_str Map.empty), Cursor,
                                  Execute insert_sql [name ada, email ada], Commit]\<rparr>,
      Ok200 [(''message'', ''Customer created''), (''name'', ''Ada Lovelace'')])"
  by (simp add: post_customers_valid [OF validate_ada] create_customer_succeeds no_fault_None
      ada_fields ada_row_def ada_world_def)

section \<open>The claims\<close>

subsection \<open>Creating a customer\<close>

text \<open>
  C4. For every validated \<^verbatim>\<open>Customer\<close>, \<^verbatim>\<open>create_customer\<close> executes a single
  parameterized insert of \<open>(name, email)\<close> with placeholder binding, commits at once and
  returns the confirmation whose message is \<^verbatim>\<open>Customer created\<close> and whose name is the
  input's. In the model: whatever the driver does, every statement the handler executes
  is the constant text \<open>insert_sql\<close> with the parameters \<open>[name, email]\<close> (the record's
  values are never part of the SQL text), and there is at most one; when no driver call
  fails, the calls are exactly connect, cursor, that execute, commit, the row is in the
  table and the confirmation is returned; and the handler returns normally on no other
  path.
\<close>

theorem create_customer_insert_commit_confirm:
  "(\<forall>call \<in> set (issued w (fst (create_customer f env w c))).
      is_execute call \<longrightarrow> call = Execute insert_sql [name c, email c])
   \<and> length (filter is_execute (issued w (fst (create_customer f env w c)))) \<le> 1
   \<and> (f (db_table w) (Connect (conn_str env)) = None
        \<and> f (db_table w) Cursor = None
        \<and> f (db_table w) (Execute insert_sql [name c, email c]) = None
        \<and> f (db_table w) Commit = None
      \<longrightarrow> snd (create_customer f env w c) =
            Inr [(''message'', ''Customer created''), (''name'', name c)]
          \<and> issued w (fst (create_customer f env w c)) =
            [Connect (conn_str env), Cursor, Execute insert_sql [name c, email c], Commit]
          \<and> db_table (fst (create_customer f env w c)) =
            db_table w @ [(Text (name c), Text (email c))])
   \<and> (\<forall>r. snd (create_customer f env w c) = Inr r
        \<longrightarrow> r = [(''message'', ''Customer created''), (''name'', name c)]
          \<and> issued w (fst (create_customer f env w c)) =
            [Connect (conn_str env), Cursor, Execute insert_sql [name c, email c], Commit]
          \<and> db_table (fst (create_customer f env w c)) =
            db_table w @ [(Text (name c), Text (email c))])"
proof (intro conjI)
  show "\<forall>call \<in> set (issued w (fst (create_customer f env w c))).
      is_execute call \<longrightarrow> call = Execute insert_sql [name c, email c]"
    by (cases rule: create_customer_cases [of f w env c]) (simp_all add: logged_def)
  show "length (filter is_execute (issued w (fst (create_customer f env w c)))) \<le> 1"
    by (cases rule: create_customer_cases [of f w env c]) (simp_all add: logged_def)
  show "f (db_table w) (Connect (conn_str env)) = None
        \<and> f (db_table w) Cursor = None
        \<and> f (db_table w) (Execute insert_sql [name c, email c]) = None
        \<and> f (db_table w) Commit = None
      \<longrightarrow> snd (create_customer f env w c) =
            Inr [(''message'', ''Customer created''), (''name'', name c)]
          \<and> issued w (fst (create_customer f env w c)) =
            [Connect (conn_str env), Cursor, Execute insert_sql [name c, email c], Commit]
          \<and> db_table (fst (create_customer f env w c)) =
            db_table w @ [(Text (name c), Text (email c))]"
    by (simp add: create_customer_succeeds)
  show "\<forall>r. snd (create_customer f env w c) = Inr r
        \<longrightarrow> r = [(''message'', ''Customer created''), (''name'', name c)]
          \<and> issued w (fst (create_customer f env w c)) =
            [Connect (conn_str env), Cursor, Execute insert_sql [name c, email c], Commit]
          \<and> db_table (fst (create_customer f env w c)) =
            db_table w @ [(Text (name c), Text (email c))]"
    by (cases rule: create_customer_cases [of f w env c]) (auto simp add: logged_def)
qed

text \<open>
  Witness for C4: with a database that accepts everything and no environment variable
  set, creating Ada answers with the confirmation, after exactly the four calls.
\<close>

theorem create_customer_insert_commit_confirm_witness:
  "snd (create_customer no_fault Map.empty empty_world ada) =
     Inr [(''message'', ''Customer created''), (''name'', ''Ada Lovelace'')]
   \<and> issued empty_world (fst (create_customer no_fault Map.empty empty_world ada)) =
     [Connect default_conn_str, Cursor,
      Execute insert_sql [''Ada Lovelace'', ''ada@example.com''], Commit]
   \<and> db_table (fst (create_customer no_fault Map.empty empty_world ada)) = [ada_row]
   \<and> Execute insert_sql [name ada, email ada]
       \<in> set (issued empty_world (fst (create_customer no_fault Map.empty empty_world ada)))
   \<and> is_execute (Execute insert_sql [name ada, email ada])"
proof -
  note t = create_customer_insert_commit_confirm [of empty_world no_fault Map.empty ada]
  have h: "no_fault (db_table empty_world) (Connect (conn_str Map.empty)) = None
        \<and> no_fault (db_table empty_world) Cursor = None
        \<and> no_fault (db_table empty_world) (Execute insert_sql [name ada, email ada]) = None
        \<and> no_fault (db_table empty_world) Commit = None"
    by (simp add: no_fault_None)
  note r = t [THEN conjunct2, THEN conjunct2, THEN conjunct1, THEN mp, OF h]
  note s = r [THEN conjunct1]
  note r4 = t [THEN conjunct2, THEN conjunct2, THEN conjunct2, THEN spec, THEN mp, OF s]
  have m: "Execute insert_sql [name ada, email ada]
       \<in> set (issued empty_world (fst (create_customer no_fault Map.empty empty_world ada)))"
    using r4 [THEN conjunct2, THEN conjunct1] by simp
  have x: "is_execute (Execute insert_sql [name ada, email ada])"
    by simp
  note r1 = t [THEN conjunct1, THEN bspec, OF m, THEN mp, OF x]
  have "snd (create_customer no_fault Map.empty empty_world ada) =
     Inr [(''message'', ''Customer created''), (''name'', ''Ada Lovelace'')]
   \<and> issued empty_world (fst (create_customer no_fault Map.empty empty_world ada)) =
     [Connect default_conn_str, Cursor,
      Execute insert_sql [''Ada Lovelace'', ''ada@example.com''], Commit]
   \<and> db_table (fst (create_customer no_fault Map.empty empty_world ada)) = [ada_row]"
    using r r4 r1 by (simp add: ada_fields empty_world_fields conn_str_empty ada_row_def)
  with m x show ?thesis by blast
qed

subsection \<open>Errors of the driver\<close>

text \<open>
  C8. When the connection handshake or a query fails, the error propagates unmodified
  to the HTTP response layer, with no retry, no backoff and no swallowing, in both
  operations. In the model: whichever call of a handler the driver fails, the handler
  ends with exactly that error and the failed call is the last one it made; no call is
  made twice; the connect is always attempted and, when connect and cursor succeed, so
  is the statement; and the route answers 500 with the same error.
\<close>

theorem driver_errors_propagate:
  "(\<forall>call \<in> set (issued w (fst (create_customer f env w c))). \<forall>e.
      f (db_table w) call = Some e
      \<longrightarrow> snd (create_customer f env w c) = Inl e
        \<and> last (issued w (fst (create_customer f env w c))) = call)
   \<and> (\<forall>call \<in> set (issued w (fst (get_customers f env w))). \<forall>e.
      f (db_table w) call = Some e
      \<longrightarrow> snd (get_customers f env w) = Inl e
        \<and> last (issued w (fst (get_customers f env w))) = call)
   \<and> distinct (issued w (fst (create_customer f env w c)))
   \<and> distinct (issued w (fst (get_customers f env w)))
   \<and> Connect (conn_str env) \<in> set (issued w (fst (create_customer f env w c)))
   \<and> Connect (conn_str env) \<in> set (issued w (fst (get_customers f env w)))
   \<and> (f (db_table w) (Connect (conn_str env)) = None \<and> f (db_table w) Cursor = None
      \<longrightarrow> Execute insert_sql [name c, email c] \<in> set (issued w (fst (create_customer f env w c)))
        \<and> Execute select_sql [] \<in> set (issued w (fst (get_customers f env w))))
   \<and> (\<forall>body e. validate_Customer body = Inr c \<and> snd (create_customer f env w c) = Inl e
      \<longrightarrow> snd (post_customers f env w body) = ServerError500 e)
   \<and> (\<forall>e. snd (get_customers f env w) = Inl e
      \<longrightarrow> snd (get_customers_route f env w) = ServerError500 e)"
proof (intro conjI)
  show "\<forall>call \<in> set (issued w (fst (create_customer f env w c))). \<forall>e.
      f (db_table w) call = Some e
      \<longrightarrow> snd (create_customer f env w c) = Inl e
        \<and> last (issued w (fst (create_customer f env w c))) = call"
    by (cases rule: create_customer_cases [of f w env c]) (auto simp add: logged_def)
  show "\<forall>call \<in> set (issued w (fst (get_customers f env w))). \<forall>e.
      f (db_table w) call = Some e
      \<longrightarrow> snd (get_customers f env w) = Inl e
        \<and> last (issued w (fst (get_customers f env w))) = call"
    by (cases rule: get_customers_cases [of f w env]) (auto simp add: logged_def)
  show "distinct (issued w (fst (create_customer f env w c)))"
    by (cases rule: create_customer_cases [of f w env c]) (simp_all add: logged_def)
  show "distinct (issued w (fst (get_customers f env w)))"
    by (cases rule: get_customers_cases [of f w env]) (simp_all add: logged_def)
  show "Connect (conn_str env) \<in> set (issued w (fst (create_customer f env w c)))"
    by (cases rule: create_customer_cases [of f w env c]) (simp_all add: logged_def)
  show "Connect (conn_str env) \<in> set (issued w (fst (get_customers f env w)))"
    by (cases rule: get_customers_cases [of f w env]) (simp_all add: logged_def)
  show "f (db_table w) (Connect (conn_str env)) = None \<and> f (db_table w) Cursor = None
      \<longrightarrow> Execute insert_sql [name c, email c] \<in> set (issued w (fst (create_customer f env w c)))
        \<and> Execute select_sql [] \<in> set (issued w (fst (get_customers f env w)))"
  proof (intro impI conjI)
    assume "f (db_table w) (Connect (conn_str env)) = None \<and> f (db_table w) Cursor = None"
    then show "Execute insert_sql [name c, email c] \<in> set (issued w (fst (create_customer f env w c)))"
      by (cases rule: create_customer_cases [of f w env c]) (simp_all add: logged_def)
  next
    assume "f (db_table w) (Connect (conn_str env)) = None \<and> f (db_table w) Cursor = None"
    then show "Execute select_sql [] \<in> set (issued w (fst (get_customers f env w)))"
      by (cases rule: get_customers_cases [of f w env]) (simp_all add: logged_def)
  qed
  show "\<forall>body e. validate_Customer body = Inr c \<and> snd (create_customer f env w c) = Inl e
      \<longrightarrow> snd (post_customers f env w body) = ServerError500 e"
    by (simp add: post_customers_def split: prod.splits sum.splits)
  show "\<forall>e. snd (get_customers f env w) = Inl e
      \<longrightarrow> snd (get_customers_route f env w) = ServerError500 e"
    by (simp add: get_customers_route_def split: prod.splits sum.splits)
qed

text \<open>
  Witness for C8: a database that refuses every connection (each handler makes the one
  connect call and ends with the driver's error), and a database that rejects every
  statement (each handler ends with that error after the execute, and each route
  answers 500 with it).
\<close>

theorem driver_errors_propagate_witness:
  "unreachable (db_table empty_world) (Connect (conn_str Map.empty)) = Some conn_refused
   \<and> snd (create_customer unreachable Map.empty empty_world ada) = Inl conn_refused
   \<and> last (issued empty_world (fst (create_customer unreachable Map.empty empty_world ada)))
       = Connect (conn_str Map.empty)
   \<and> snd (get_customers unreachable Map.empty empty_world) = Inl conn_refused
   \<and> rejecting (db_table empty_world) (Execute insert_sql [name ada, email ada])
       = Some constraint_violated
   \<and> snd (create_customer rejecting Map.empty empty_world ada) = Inl constraint_violated
   \<and> last (issued empty_world (fst (create_customer rejecting Map.empty empty_world ada)))
       = Execute insert_sql [name ada, email ada]
   \<and> snd (post_customers rejecting Map.empty empty_world ada_body)
       = ServerError500 constraint_violated
   \<and> snd (get_customers rejecting Map.empty empty_world) = Inl constraint_violated
   \<and> snd (get_customers_route rejecting Map.empty empty_world)
       = ServerError500 constraint_violated"
proof -
  note u = driver_errors_propagate [of empty_world unreachable Map.empty ada]
  note t = driver_errors_propagate [of empty_world rejecting Map.empty ada]
  have h: "unreachable (db_table empty_world) (Connect (conn_str Map.empty)) = Some conn_refused"
    by (simp add: unreachable_simps)
  note m1 = u [THEN conjunct2, THEN conjunct2, THEN conjunct2, THEN conjunct2, THEN conjunct1]
  note m2 = u [THEN conjunct2, THEN conjunct2, THEN conjunct2, THEN conjunct2, THEN conjunct2,
      THEN conjunct1]
  note u1 = u [THEN conjunct1, THEN bspec, OF m1, THEN spec, THEN mp, OF h]
  note u2 = u [THEN conjunct2, THEN conjunct1, THEN bspec, OF m2, THEN spec, THEN mp, OF h]
  have k: "rejecting (db_table empty_world) (Connect (conn_str Map.empty)) = None
           \<and> rejecting (db_table empty_world) Cursor = None"
    by (simp add: rejecting_simps)
  note e = t [THEN conjunct2, THEN conjunct2, THEN conjunct2, THEN conjunct2, THEN conjunct2,
      THEN conjunct2, THEN conjunct1, THEN mp, OF k]
  have i: "rejecting (db_table empty_world) (Execute insert_sql [name ada, email ada])
       = Some constraint_violated"
    by (simp add: rejecting_simps)
  have s: "rejecting (db_table empty_world) (Execute select_sql []) = Some constraint_violated"
    by (simp add: rejecting_simps)
  note t1 = t [THEN conjunct1, THEN bspec, OF e [THEN conjunct1], THEN spec, THEN mp, OF i]
  note t2 = t [THEN conjunct2, THEN conjunct1, THEN bspec, OF e [THEN conjunct2], THEN spec,
      THEN mp, OF s]
  note t8 = t [THEN conjunct2, THEN conjunct2, THEN conjunct2, THEN conjunct2, THEN conjunct2,
      THEN conjunct2, THEN conjunct2, THEN conjunct1, THEN spec, THEN spec, THEN mp,
      OF conjI [OF validate_ada t1 [THEN conjunct1]]]
  note t9 = t [THEN conjunct2, THEN conjunct2, THEN conjunct2, THEN conjunct2, THEN conjunct2,
      THEN conjunct2, THEN conjunct2, THEN conjunct2, THEN spec, THEN mp,
      OF t2 [THEN conjunct1]]
  show ?thesis
    by (intro conjI)
       (rule h, rule u1 [THEN conjunct1], rule u1 [THEN conjunct2], rule u2 [THEN conjunct1],
        rule i, rule t1 [THEN conjunct1], rule t1 [THEN conjunct2], rule t8,
        rule t2 [THEN conjunct1], rule t9)
qed

text \<open>
  C9. \<^verbatim>\<open>create_customer\<close> is atomic with respect to errors: when connection setup or
  the insert fails, no commit is issued and the table is left unchanged; there is no
  intermediate observable state. In the model the committed table is what other
  connections observe: after the handler it is the old table or the old table with the
  one new row, it is the old table whenever the handler ends with an error or made no
  commit call.
\<close>

theorem create_customer_atomic:
  "(f (db_table w) (Connect (conn_str env)) \<noteq> None
      \<or> f (db_table w) (Execute insert_sql [name c, email c]) \<noteq> None
     \<longrightarrow> Commit \<notin> set (issued w (fst (create_customer f env w c)))
       \<and> db_table (fst (create_customer f env w c)) = db_table w
       \<and> (\<exists>e. snd (create_customer f env w c) = Inl e))
   \<and> (\<forall>e. snd (create_customer f env w c) = Inl e
       \<longrightarrow> db_table (fst (create_customer f env w c)) = db_table w)
   \<and> (Commit \<notin> set (issued w (fst (create_customer f env w c)))
       \<longrightarrow> db_table (fst (create_customer f env w c)) = db_table w)
   \<and> (db_table (fst (create_customer f env w c)) = db_table w
       \<or> db_table (fst (create_customer f env w c)) =
           db_table w @ [(Text (name c), Text (email c))])"
proof (intro conjI)
  show "f (db_table w) (Connect (conn_str env)) \<noteq> None
      \<or> f (db_table w) (Execute insert_sql [name c, email c]) \<noteq> None
     \<longrightarrow> Commit \<notin> set (issued w (fst (create_customer f env w c)))
       \<and> db_table (fst (create_customer f env w c)) = db_table w
       \<and> (\<exists>e. snd (create_customer f env w c) = Inl e)"
    by (cases rule: create_customer_cases [of f w env c]) (simp_all add: logged_def)
  show "\<forall>e. snd (create_customer f env w c) = Inl e
       \<longrightarrow> db_table (fst (create_customer f env w c)) = db_table w"
    by (cases rule: create_customer_cases [of f w env c]) (simp_all add: logged_def)
  show "Commit \<notin> set (issued w (fst (create_customer f env w c)))
       \<longrightarrow> db_table (fst (create_customer f env w c)) = db_table w"
    by (cases rule: create_customer_cases [of f w env c]) (simp_all add: logged_def)
  show "db_table (fst (create_customer f env w c)) = db_table w
       \<or> db_table (fst (create_customer f env w c)) =
           db_table w @ [(Text (name c), Text (email c))]"
    by (cases rule: create_customer_cases [of f w env c]) (simp_all add: logged_def)
qed

text \<open>
  Witness for C9: the database rejects the insert into a table that holds Ada's row.
\<close>

theorem create_customer_atomic_witness:
  "rejecting (db_table ada_world) (Execute insert_sql [name ada, email ada]) \<noteq> None
   \<and> snd (create_customer rejecting Map.empty ada_world ada) = Inl constraint_violated
   \<and> Commit \<notin> set (issued ada_world (fst (create_customer rejecting Map.empty ada_world ada)))
   \<and> db_table (fst (create_customer rejecting Map.empty ada_world ada)) = [ada_row]"
proof -
  note t = create_customer_atomic [of rejecting ada_world Map.empty ada]
  have g: "rejecting (db_table ada_world) (Execute insert_sql [name ada, email ada]) \<noteq> None"
    by (simp add: rejecting_simps)
  have h: "rejecting (db_table ada_world) (Connect (conn_str Map.empty)) \<noteq> None
      \<or> rejecting (db_table ada_world) (Execute insert_sql [name ada, email ada]) \<noteq> None"
    using g by (rule disjI2)
  have a: "db_table ada_world = [ada_row]"
    by (simp add: ada_world_def)
  have s: "snd (create_customer rejecting Map.empty ada_world ada) = Inl constraint_violated"
    by (simp add: create_customer_execute_fails rejecting_simps)
  note r1 = t [THEN conjunct1, THEN mp, OF h]
  note r2 = t [THEN conjunct2, THEN conjunct1, THEN spec, THEN mp, OF s]
  note r3 = t [THEN conjunct2, THEN conjunct2, THEN conjunct1, THEN mp, OF r1 [THEN conjunct1]]
  have d: "db_table (fst (create_customer rejecting Map.empty ada_world ada)) = [ada_row]"
    using r2 r3 a by simp
  show ?thesis
    by (intro conjI) (rule g, rule s, rule r1 [THEN conjunct1], rule d)
qed

subsection \<open>No close call\<close>

text \<open>
  C3, as stated, says that each handler closes the connection it opened on every exit
  path, by scoped acquisition. \<^verbatim>\<open>main.py\<close> has no \<^verbatim>\<open>close\<close> call, no \<^verbatim>\<open>with\<close> block and
  no \<^verbatim>\<open>try\<close>: the calls of a successful \<^verbatim>\<open>create_customer\<close> are connect, cursor,
  execute, commit; those of a successful \<^verbatim>\<open>get_customers\<close> are connect, cursor,
  execute, fetchall; those of a \<^verbatim>\<open>create_customer\<close> whose insert was rejected are
  connect, cursor, execute. None of the three has a close.
\<close>

theorem handlers_make_no_close_call_counterexample:
  "issued empty_world (fst (create_customer no_fault Map.empty empty_world ada))
     = [Connect default_conn_str, Cursor,
        Execute insert_sql [''Ada Lovelace'', ''ada@example.com''], Commit]
   \<and> Close \<notin> set (issued empty_world (fst (create_customer no_fault Map.empty empty_world ada)))
   \<and> issued empty_world (fst (get_customers no_fault Map.empty empty_world))
     = [Connect default_conn_str, Cursor, Execute select_sql [], Fetchall]
   \<and> Close \<notin> set (issued empty_world (fst (get_customers no_fault Map.empty empty_world)))
   \<and> snd (create_customer rejecting Map.empty empty_world ada) = Inl constraint_violated
   \<and> issued empty_world (fst (create_customer rejecting Map.empty empty_world ada))
     = [Connect default_conn_str, Cursor,
        Execute insert_sql [''Ada Lovelace'', ''ada@example.com'']]
   \<and> Close \<notin> set (issued empty_world (fst (create_customer rejecting Map.empty empty_world ada)))"
  by (simp add: create_customer_succeeds get_customers_succeeds create_customer_execute_fails
      no_fault_None rejecting_simps empty_world_fields ada_fields conn_str_empty)

text \<open>
  C3, amended. Neither handler closes the connection it opened, and neither acquires
  it in a scope that would: on every exit path, the error paths included, the handler
  asks the driver for a connection and makes no close call. (What becomes of the
  connection object once the handler's frame is gone is not part of \<^verbatim>\<open>main.py\<close> and
  not part of this model; the theorem speaks of the calls the handler makes.)
\<close>

theorem handlers_make_no_close_call:
  "Connect (conn_str env) \<in> set (issued w (fst (create_customer f env w c)))
   \<and> Close \<notin> set (issued w (fst (create_customer f env w c)))
   \<and> Connect (conn_str env) \<in> set (issued w (fst (get_customers f env w)))
   \<and> Close \<notin> set (issued w (fst (get_customers f env w)))"
proof (intro conjI)
  show "Connect (conn_str env) \<in> set (issued w (fst (create_customer f env w c)))"
    by (cases rule: create_customer_cases [of f w env c]) (simp_all add: logged_def)
  show "Close \<notin> set (issued w (fst (create_customer f env w c)))"
    by (cases rule: create_customer_cases [of f w env c]) (simp_all add: logged_def)
  show "Connect (conn_str env) \<in> set (issued w (fst (get_customers f env w)))"
    by (cases rule: get_customers_cases [of f w env]) (simp_all add: logged_def)
  show "Close \<notin> set (issued w (fst (get_customers f env w)))"
    by (cases rule: get_customers_cases [of f w env]) (simp_all add: logged_def)
qed

subsection \<open>Listing customers\<close>

text \<open>
  C5. For every sequence of rows the database returns for the select,
  \<^verbatim>\<open>get_customers\<close> returns exactly one \<open>{name, email}\<close> dict per row, carrying that
  row's values, in the order of the rows; for an empty table it returns the empty list,
  not an error. In the model the rows a fresh connection is given are the committed
  table: whenever the handler returns, its result has the table's length and its
  \<open>i\<close>-th dict holds the two values of the \<open>i\<close>-th row; and when no driver call fails it
  does return, with \<open>[]\<close> for the empty table.
\<close>

theorem get_customers_one_dict_per_row:
  "(\<forall>res. snd (get_customers f env w) = Inr res
      \<longrightarrow> length res = length (db_table w)
        \<and> (\<forall>i < length res.
              res ! i = [(''name'', fst (db_table w ! i)), (''email'', snd (db_table w ! i))]))
   \<and> (f (db_table w) (Connect (conn_str env)) = None
        \<and> f (db_table w) Cursor = None
        \<and> f (db_table w) (Execute select_sql []) = None
        \<and> f (db_table w) Fetchall = None
      \<longrightarrow> (\<exists>res. snd (get_customers f env w) = Inr res)
        \<and> (db_table w = [] \<longrightarrow> snd (get_customers f env w) = Inr []))"
proof (intro conjI)
  show "\<forall>res. snd (get_customers f env w) = Inr res
      \<longrightarrow> length res = length (db_table w)
        \<and> (\<forall>i < length res.
              res ! i = [(''name'', fst (db_table w ! i)), (''email'', snd (db_table w ! i))])"
  proof (intro allI impI)
    fix res assume r: "snd (get_customers f env w) = Inr res"
    show "length res = length (db_table w)
        \<and> (\<forall>i < length res.
              res ! i = [(''name'', fst (db_table w ! i)), (''email'', snd (db_table w ! i))])"
      using get_customers_Inr [OF r] by (simp add: row_dict_def)
  qed
  show "f (db_table w) (Connect (conn_str env)) = None
        \<and> f (db_table w) Cursor = None
        \<and> f (db_table w) (Execute select_sql []) = None
        \<and> f (db_table w) Fetchall = None
      \<longrightarrow> (\<exists>res. snd (get_customers f env w) = Inr res)
        \<and> (db_table w = [] \<longrightarrow> snd (get_customers f env w) = Inr [])"
  proof
    assume "f (db_table w) (Connect (conn_str env)) = None
        \<and> f (db_table w) Cursor = None
        \<and> f (db_table w) (Execute select_sql []) = None
        \<and> f (db_table w) Fetchall = None"
    then have "snd (get_customers f env w) = Inr (map row_dict (db_table w))"
      by (simp add: get_customers_succeeds)
    then show "(\<exists>res. snd (get_customers f env w) = Inr res)
        \<and> (db_table w = [] \<longrightarrow> snd (get_customers f env w) = Inr [])"
      by simp
  qed
qed

text \<open>Witness for C5: the empty table lists as \<open>[]\<close>, the table holding Ada as her dict.\<close>

theorem get_customers_one_dict_per_row_witness:
  "snd (get_customers no_fault Map.empty empty_world) = Inr []
   \<and> snd (get_customers no_fault Map.empty ada_world)
       = Inr [[(''name'', Text ''Ada Lovelace''), (''email'', Text ''ada@example.com'')]]"
proof -
  have h: "no_fault (db_table empty_world) (Connect (conn_str Map.empty)) = None
        \<and> no_fault (db_table empty_world) Cursor = None
        \<and> no_fault (db_table empty_world) (Execute select_sql []) = None
        \<and> no_fault (db_table empty_world) Fetchall = None"
    by (simp add: no_fault_None)
  have e: "db_table empty_world = []"
    by (simp add: empty_world_fields)
  note r1 = get_customers_one_dict_per_row [of no_fault Map.empty empty_world,
      THEN conjunct2, THEN mp, OF h, THEN conjunct2, THEN mp, OF e]
  have g: "snd (get_customers no_fault Map.empty ada_world) = Inr [row_dict ada_row]"
    by (simp add: get_customers_succeeds no_fault_None ada_world_def)
  note r2 = get_customers_one_dict_per_row [of no_fault Map.empty ada_world,
      THEN conjunct1, THEN spec, THEN mp, OF g, THEN conjunct2, THEN spec, THEN mp, of 0]
  have "[row_dict ada_row] ! 0 = [(''name'', Text ''Ada Lovelace''), (''email'', Text ''ada@example.com'')]"
    using r2 by (simp add: ada_world_def ada_row_def)
  then have "[row_dict ada_row] = [[(''name'', Text ''Ada Lovelace''), (''email'', Text ''ada@example.com'')]]"
    by simp
  with g have g': "snd (get_customers no_fault Map.empty ada_world)
       = Inr [[(''name'', Text ''Ada Lovelace''), (''email'', Text ''ada@example.com'')]]"
    by simp
  show ?thesis by (intro conjI) (rule r1, rule g')
qed

text \<open>
  C6. At any point, the set of \<open>(name, email)\<close> pairs \<^verbatim>\<open>get_customers\<close> returns is
  exactly the set of rows of the table at query time; the service holds no state of its
  own that could make the two differ. In the model: reading the returned dicts back as
  pairs gives the set of the table's rows; listing does not change the table; and two
  worlds with the same table list the same (under the same driver behaviour), whatever
  else differs between them.
\<close>

theorem listed_set_is_table_set:
  "(\<forall>res. snd (get_customers f env w) = Inr res
      \<longrightarrow> dict_pair ` set res = Some ` set (db_table w))
   \<and> db_table (fst (get_customers f env w)) = db_table w
   \<and> (db_table w2 = db_table w \<longrightarrow> snd (get_customers f env w2) = snd (get_customers f env w))"
proof (intro conjI allI impI)
  fix res assume r: "snd (get_customers f env w) = Inr res"
  have "dict_pair ` set (map row_dict (db_table w)) = Some ` set (db_table w)"
    by (simp add: image_image dict_pair_row_dict)
  then show "dict_pair ` set res = Some ` set (db_table w)"
    using get_customers_Inr [OF r] by simp
next
  show "db_table (fst (get_customers f env w)) = db_table w"
    by (cases rule: get_customers_cases [of f w env]) (simp_all add: logged_def)
next
  assume t: "db_table w2 = db_table w"
  show "snd (get_customers f env w2) = snd (get_customers f env w)"
  proof (cases rule: get_customers_cases [of f w env])
    case (connect_fails e)
    then show ?thesis using get_customers_connect_fails [of f w2 env e] t by simp
  next
    case (cursor_fails e)
    then show ?thesis using get_customers_cursor_fails [of f w2 env e] t by simp
  next
    case (execute_fails e)
    then show ?thesis using get_customers_execute_fails [of f w2 env e] t by simp
  next
    case (fetchall_fails e)
    then show ?thesis using get_customers_fetchall_fails [of f w2 env e] t by simp
  next
    case succeeds
    then show ?thesis using get_customers_succeeds [of f w2 env] t by simp
  qed
qed

text \<open>
  Witness for C6: the world reached by posting Ada to the empty database and the world
  \<open>ada_world\<close> differ in log and handles, have the same table and list the same.
\<close>

theorem listed_set_is_table_set_witness:
  "snd (get_customers no_fault Map.empty ada_world) = Inr [row_dict ada_row]
   \<and> dict_pair ` set [row_dict ada_row] = Some ` set (db_table ada_world)
   \<and> db_table (fst (post_customers no_fault Map.empty empty_world ada_body)) = db_table ada_world
   \<and> snd (get_customers no_fault Map.empty (fst (post_customers no_fault Map.empty empty_world ada_body)))
       = snd (get_customers no_fault Map.empty ada_world)"
proof -
  have g: "snd (get_customers no_fault Map.empty ada_world) = Inr [row_dict ada_row]"
    by (simp add: get_customers_succeeds no_fault_None ada_world_def)
  have v: "validate_Customer ada_body = Inr ada"
    by (simp add: validate_Customer_def str_field_def ada_body_def ada_def)
  have t: "db_table (fst (post_customers no_fault Map.empty empty_world ada_body)) = db_table ada_world"
    by (simp add: post_customers_def v create_customer_succeeds no_fault_None ada_fields
        ada_row_def ada_world_def empty_world_fields)
  note r1 = listed_set_is_table_set [of no_fault Map.empty ada_world,
      THEN conjunct1, THEN spec, THEN mp, OF g]
  note r2 = listed_set_is_table_set [of no_fault Map.empty ada_world
      "fst (post_customers no_fault Map.empty empty_world ada_body)",
      THEN conjunct2, THEN conjunct2, THEN mp, OF t]
  show ?thesis by (intro conjI) (rule g, rule r1, rule t, rule r2)
qed

subsection \<open>POST followed by GET\<close>

text \<open>
  C1, as stated, says that after a successful POST of a valid \<open>(name, email)\<close> the GET
  lists that pair exactly once. The table has no uniqueness of its own in \<^verbatim>\<open>main.py\<close>
  and the handler does not look for the pair before inserting: posting Ada to a table
  that already holds Ada succeeds, and the GET lists her twice.
\<close>

theorem post_twice_lists_twice_counterexample:
  "snd (post_customers no_fault Map.empty ada_world ada_body)
     = Ok200 [(''message'', ''Customer created''), (''name'', ''Ada Lovelace'')]
   \<and> snd (get_customers no_fault Map.empty (fst (post_customers no_fault Map.empty ada_world ada_body)))
     = Inr [[(''name'', Text ''Ada Lovelace''), (''email'', Text ''ada@example.com'')],
            [(''name'', Text ''Ada Lovelace''), (''email'', Text ''ada@example.com'')]]
   \<and> count_list [[(''name'', Text ''Ada Lovelace''), (''email'', Text ''ada@example.com'')],
            [(''name'', Text ''Ada Lovelace''), (''email'', Text ''ada@example.com'')]]
        [(''name'', Text ''Ada Lovelace''), (''email'', Text ''ada@example.com'')] \<noteq> 1"
  by (simp add: post_ada_again get_customers_succeeds no_fault_None row_dict_def ada_row_def)

text \<open>
  C1, amended. For every valid \<open>(name, email)\<close>, after a successful POST the GET that
  follows lists that pair exactly once more often than the table held it before the
  POST; hence exactly once when the table did not hold it before.
\<close>

theorem post_then_get_counts_one_more:
  "validate_Customer body = Inr c
   \<and> snd (post_customers f env w body) = Ok200 r
   \<and> snd (get_customers f env (fst (post_customers f env w body))) = Inr res
   \<longrightarrow> count_list res (row_dict (Text (name c), Text (email c)))
         = count_list (db_table w) (Text (name c), Text (email c)) + 1
     \<and> ((Text (name c), Text (email c)) \<notin> set (db_table w)
         \<longrightarrow> count_list res (row_dict (Text (name c), Text (email c))) = 1)"
proof (intro impI, elim conjE)
  assume v: "validate_Customer body = Inr c"
     and p: "snd (post_customers f env w body) = Ok200 r"
     and g: "snd (get_customers f env (fst (post_customers f env w body))) = Inr res"
  have "res = map row_dict (db_table w @ [(Text (name c), Text (email c))])"
    using get_customers_Inr [OF g] post_customers_Ok200 [OF v p] by simp
  then have n: "count_list res (row_dict (Text (name c), Text (email c)))
         = count_list (db_table w) (Text (name c), Text (email c)) + 1"
    by (simp add: count_list_row_dict del: map_append)
  show "count_list res (row_dict (Text (name c), Text (email c)))
         = count_list (db_table w) (Text (name c), Text (email c)) + 1
     \<and> ((Text (name c), Text (email c)) \<notin> set (db_table w)
         \<longrightarrow> count_list res (row_dict (Text (name c), Text (email c))) = 1)"
    using n by (simp add: count_list_0_iff)
qed

text \<open>Witness for C1, amended: posting Ada to the empty database, then listing.\<close>

theorem post_then_get_counts_one_more_witness:
  "validate_Customer ada_body = Inr ada
   \<and> snd (post_customers no_fault Map.empty empty_world ada_body)
       = Ok200 [(''message'', ''Customer created''), (''name'', ''Ada Lovelace'')]
   \<and> snd (get_customers no_fault Map.empty (fst (post_customers no_fault Map.empty empty_world ada_body)))
       = Inr [row_dict ada_row]
   \<and> count_list [row_dict ada_row] (row_dict (Text (name ada), Text (email ada))) = 1"
proof -
  have p: "post_customers no_fault Map.empty empty_world ada_body =
     (empty_world\<lparr>db_table := [ada_row],
        db_conns := (db_conns empty_world)(db_next empty_world \<mapsto> []),
        db_next := Suc (db_next empty_world),
        db_calls := db_calls empty_world @ [Connect (conn_str Map.empty), Cursor,
                                  Execute insert_sql [name ada, email ada], Commit]\<rparr>,
      Ok200 [(''message'', ''Customer created''), (''name'', ''Ada Lovelace'')])"
    by (simp add: post_customers_valid [OF validate_ada] create_customer_succeeds no_fault_None
      ada_fields ada_row_def empty_world_def)
  have h1: "snd (post_customers no_fault Map.empty empty_world ada_body)
       = Ok200 [(''message'', ''Customer created''), (''name'', ''Ada Lovelace'')]"
    by (simp add: p)
  have h2: "snd (get_customers no_fault Map.empty (fst (post_customers no_fault Map.empty empty_world ada_body)))
       = Inr [row_dict ada_row]"
    by (simp add: p get_customers_succeeds no_fault_None)
  have h3: "(Text (name ada), Text (email ada)) \<notin> set (db_table empty_world)"
    by (simp add: empty_world_fields)
  note r = post_then_get_counts_one_more [of ada_body ada no_fault Map.empty empty_world _ "[row_dict ada_row]",
      THEN mp, OF conjI [OF validate_ada conjI [OF h1 h2]], THEN conjunct2, THEN mp, OF h3]
  show ?thesis by (intro conjI) (rule validate_ada, rule h1, rule h2, rule r)
qed

subsection \<open>Validation\<close>

text \<open>
  C2, as stated, says that the validator accepts a payload only if \<open>name\<close> is non-empty
  and \<open>email\<close> passes email-format validation. Both fields of \<^verbatim>\<open>Customer\<close> are plain
  \<^verbatim>\<open>str\<close>: the payload with the empty name and the email \<^verbatim>\<open>not-an-email\<close> is accepted,
  and the POST writes the row.
\<close>

theorem validator_accepts_any_strings_counterexample:
  "validate_Customer (JObj [(''name'', JStr ''''), (''email'', JStr ''not-an-email'')])
     = Inr \<lparr>name = '''', email = ''not-an-email''\<rparr>
   \<and> snd (post_customers no_fault Map.empty empty_world
            (JObj [(''name'', JStr ''''), (''email'', JStr ''not-an-email'')]))
     = Ok200 [(''message'', ''Customer created''), (''name'', '''')]
   \<and> db_table (fst (post_customers no_fault Map.empty empty_world
            (JObj [(''name'', JStr ''''), (''email'', JStr ''not-an-email'')])))
     = [(Text '''', Text ''not-an-email'')]"
proof -
  have v: "validate_Customer (JObj [(''name'', JStr ''''), (''email'', JStr ''not-an-email'')])
     = Inr \<lparr>name = '''', email = ''not-an-email''\<rparr>"
    by (simp add: validate_Customer_def str_field_def)
  show ?thesis
    by (simp add: v post_customers_def create_customer_succeeds no_fault_None empty_world_fields)
qed

text \<open>
  C2, amended. The validator accepts a payload if and only if it is an object with
  string fields \<open>name\<close> and \<open>email\<close>, whatever the two strings are (the empty name and
  a malformed email included), and the accepted record carries those two strings; every
  other payload (a missing field, a field of another type, a body that is no object) is
  rejected with a non-empty list of validation errors, answered as 422, and the world
  is left as it was: no driver call is made, so nothing is written.
\<close>

theorem validator_accepts_iff_string_fields:
  "((\<exists>c. validate_Customer body = Inr c) \<longleftrightarrow>
      (\<exists>items n e. body = JObj items
         \<and> map_of items ''name'' = Some (JStr n) \<and> map_of items ''email'' = Some (JStr e)))
   \<and> (\<forall>items n e. body = JObj items
         \<and> map_of items ''name'' = Some (JStr n) \<and> map_of items ''email'' = Some (JStr e)
       \<longrightarrow> validate_Customer body = Inr \<lparr>name = n, email = e\<rparr>)
   \<and> (\<forall>errs. validate_Customer body = Inl errs
       \<longrightarrow> errs \<noteq> [] \<and> post_customers f env w body = (w, Unprocessable422 errs))"
proof (intro conjI)
  show "(\<exists>c. validate_Customer body = Inr c) \<longleftrightarrow>
      (\<exists>items n e. body = JObj items
         \<and> map_of items ''name'' = Some (JStr n) \<and> map_of items ''email'' = Some (JStr e))"
  proof
    assume "\<exists>c. validate_Customer body = Inr c"
    then show "\<exists>items n e. body = JObj items
         \<and> map_of items ''name'' = Some (JStr n) \<and> map_of items ''email'' = Some (JStr e)"
      unfolding validate_Customer_Inr by blast
  next
    assume "\<exists>items n e. body = JObj items
         \<and> map_of items ''name'' = Some (JStr n) \<and> map_of items ''email'' = Some (JStr e)"
    then obtain items n e where "body = JObj items"
      "map_of items ''name'' = Some (JStr n)" "map_of items ''email'' = Some (JStr e)"
      by blast
    then have "validate_Customer body = Inr \<lparr>name = n, email = e\<rparr>"
      unfolding validate_Customer_Inr by simp
    then show "\<exists>c. validate_Customer body = Inr c" ..
  qed
  show "\<forall>items n e. body = JObj items
         \<and> map_of items ''name'' = Some (JStr n) \<and> map_of items ''email'' = Some (JStr e)
       \<longrightarrow> validate_Customer body = Inr \<lparr>name = n, email = e\<rparr>"
    unfolding validate_Customer_Inr by simp
  show "\<forall>errs. validate_Customer body = Inl errs
       \<longrightarrow> errs \<noteq> [] \<and> post_customers f env w body = (w, Unprocessable422 errs)"
    by (simp add: post_customers_def validate_Customer_Inl_nonempty)
qed

text \<open>
  Witness for C2, amended: a payload without \<open>name\<close>, posted to the table holding Ada,
  and Ada's payload.
\<close>

theorem validator_accepts_iff_string_fields_witness:
  "validate_Customer (JObj [(''email'', JStr ''ada@example.com'')]) = Inl [Missing ''name'']
   \<and> post_customers no_fault Map.empty ada_world (JObj [(''email'', JStr ''ada@example.com'')])
       = (ada_world, Unprocessable422 [Missing ''name''])
   \<and> (\<exists>c. validate_Customer ada_body = Inr c)
   \<and> validate_Customer ada_body = Inr \<lparr>name = ''Ada Lovelace'', email = ''ada@example.com''\<rparr>"
proof -
  have h: "validate_Customer (JObj [(''email'', JStr ''ada@example.com'')]) = Inl [Missing ''name'']"
    by (simp add: validate_Customer_def str_field_def errors_of_def)
  note r = validator_accepts_iff_string_fields [of "JObj [(''email'', JStr ''ada@example.com'')]"
      no_fault Map.empty ada_world, THEN conjunct2, THEN conjunct2, THEN spec, THEN mp, OF h,
      THEN conjunct2]
  note t = validator_accepts_iff_string_fields [of ada_body no_fault Map.empty ada_world]
  have k: "ada_body = JObj [(''name'', JStr ''Ada Lovelace''), (''email'', JStr ''ada@example.com'')]
           \<and> map_of [(''name'', JStr ''Ada Lovelace''), (''email'', JStr ''ada@example.com'')] ''name''
               = Some (JStr ''Ada Lovelace'')
           \<and> map_of [(''name'', JStr ''Ada Lovelace''), (''email'', JStr ''ada@example.com'')] ''email''
               = Some (JStr ''ada@example.com'')"
    by (simp add: ada_body_def)
  have x: "\<exists>items n e. ada_body = JObj items
         \<and> map_of items ''name'' = Some (JStr n) \<and> map_of items ''email'' = Some (JStr e)"
    using k by (intro exI)
  note t1 = t [THEN conjunct1, THEN iffD2, OF x]
  note t2 = t [THEN conjunct2, THEN conjunct1, THEN spec, THEN spec, THEN spec, THEN mp, OF k]
  show ?thesis
    by (intro conjI) (rule h, rule r, rule t1, rule t2)
qed

text \<open>
  C10. A payload that has the string fields \<open>name\<close> and \<open>email\<close> and any further
  fields is accepted, and the further fields are ignored: the record is built from the
  two fields alone, and the POST does what it does for the payload without the extras.
\<close>

theorem extra_fields_ignored:
  "(map_of items ''name'' = Some (JStr n) \<and> map_of items ''email'' = Some (JStr e)
     \<longrightarrow> validate_Customer (JObj items) = Inr \<lparr>name = n, email = e\<rparr>
       \<and> post_customers f env w (JObj items)
           = post_customers f env w (JObj [(''name'', JStr n), (''email'', JStr e)]))
   \<and> validate_Customer (JObj ([(''name'', JStr n), (''email'', JStr e)] @ extras))
       = Inr \<lparr>name = n, email = e\<rparr>"
proof (intro conjI impI)
  assume a: "map_of items ''name'' = Some (JStr n) \<and> map_of items ''email'' = Some (JStr e)"
  then show v: "validate_Customer (JObj items) = Inr \<lparr>name = n, email = e\<rparr>"
    unfolding validate_Customer_Inr by simp
  have "validate_Customer (JObj [(''name'', JStr n), (''email'', JStr e)])
          = Inr \<lparr>name = n, email = e\<rparr>"
    unfolding validate_Customer_Inr by simp
  with v show "post_customers f env w (JObj items)
           = post_customers f env w (JObj [(''name'', JStr n), (''email'', JStr e)])"
    by (simp add: post_customers_def)
next
  show "validate_Customer (JObj ([(''name'', JStr n), (''email'', JStr e)] @ extras))
       = Inr \<lparr>name = n, email = e\<rparr>"
    unfolding validate_Customer_Inr by simp
qed

text \<open>Witness for C10: Ada's payload with an \<open>id\<close> and an \<open>admin\<close> field added.\<close>

theorem extra_fields_ignored_witness:
  "validate_Customer (JObj [(''id'', JNum 7), (''name'', JStr ''Ada Lovelace''),
       (''admin'', JBool True), (''email'', JStr ''ada@example.com'')])
     = Inr \<lparr>name = ''Ada Lovelace'', email = ''ada@example.com''\<rparr>
   \<and> post_customers no_fault Map.empty empty_world
       (JObj [(''id'', JNum 7), (''name'', JStr ''Ada Lovelace''),
         (''admin'', JBool True), (''email'', JStr ''ada@example.com'')])
     = post_customers no_fault Map.empty empty_world
       (JObj [(''name'', JStr ''Ada Lovelace''), (''email'', JStr ''ada@example.com'')])"
proof -
  have h: "map_of [(''id'', JNum 7), (''name'', JStr ''Ada Lovelace''),
       (''admin'', JBool True), (''email'', JStr ''ada@example.com'')] ''name''
       = Some (JStr ''Ada Lovelace'')
     \<and> map_of [(''id'', JNum 7), (''name'', JStr ''Ada Lovelace''),
       (''admin'', JBool True), (''email'', JStr ''ada@example.com'')] ''email''
       = Some (JStr ''ada@example.com'')"
    by simp
  show ?thesis
    by (rule extra_fields_ignored [of _ _ _ no_fault Map.empty empty_world "[]",
          THEN conjunct1, THEN mp, OF h])
qed

subsection \<open>The connection string\<close>

text \<open>
  C7. The connection factory builds its connection from four configuration values
  (server host, database name, username, password), each with a default that the
  environment variable of that value overrides when it is set, and the connection uses
  encrypted transport by default. In the model: the string handed to the driver has the
  four values in its \<open>SERVER\<close>, \<open>DATABASE\<close>, \<open>UID\<close> and \<open>PWD\<close> entries, each the
  variable's value when set and the default otherwise; it ends, for every environment,
  with \<open>Encrypt=yes;TrustServerCertificate=no;\<close> and the timeout; and it is the one
  call the factory makes.
\<close>

theorem connection_string_from_configuration:
  "conn_str env =
     ''DRIVER={ODBC Driver 18 for SQL Server};''
     @ ''SERVER='' @ (case env ''SQL_SERVER'' of
                        None \<Rightarrow> ''cms-sql-server2025.database.windows.net'' | Some v \<Rightarrow> v) @ '';''
     @ ''DATABASE='' @ (case env ''SQL_DB'' of None \<Rightarrow> ''cms-db'' | Some v \<Rightarrow> v) @ '';''
     @ ''UID='' @ (case env ''SQL_USER'' of None \<Rightarrow> ''sqladmin'' | Some v \<Rightarrow> v) @ '';''
     @ ''PWD='' @ (case env ''SQL_PASSWORD'' of None \<Rightarrow> ''P@ssw0rd123!'' | Some v \<Rightarrow> v) @ '';''
     @ ''Encrypt=yes;TrustServerCertificate=no;Connection Timeout=30;''
   \<and> suffix ''Encrypt=yes;TrustServerCertificate=no;Connection Timeout=30;'' (conn_str env)
   \<and> issued w (fst (get_db_connection f env w)) = [Connect (conn_str env)]
   \<and> conn_str Map.empty = default_conn_str
   \<and> conn_str [''SQL_SERVER'' \<mapsto> ''db.internal'', ''SQL_PASSWORD'' \<mapsto> ''s3cret'']
       = ''DRIVER={ODBC Driver 18 for SQL Server};SERVER=db.internal;DATABASE=cms-db;UID=sqladmin;PWD=s3cret;Encrypt=yes;TrustServerCertificate=no;Connection Timeout=30;''"
proof (intro conjI)
  show c: "conn_str env =
     ''DRIVER={ODBC Driver 18 for SQL Server};''
     @ ''SERVER='' @ (case env ''SQL_SERVER'' of
                        None \<Rightarrow> ''cms-sql-server2025.database.windows.net'' | Some v \<Rightarrow> v) @ '';''
     @ ''DATABASE='' @ (case env ''SQL_DB'' of None \<Rightarrow> ''cms-db'' | Some v \<Rightarrow> v) @ '';''
     @ ''UID='' @ (case env ''SQL_USER'' of None \<Rightarrow> ''sqladmin'' | Some v \<Rightarrow> v) @ '';''
     @ ''PWD='' @ (case env ''SQL_PASSWORD'' of None \<Rightarrow> ''P@ssw0rd123!'' | Some v \<Rightarrow> v) @ '';''
     @ ''Encrypt=yes;TrustServerCertificate=no;Connection Timeout=30;''"
    by (simp add: conn_str_def getenv_def)
  show "suffix ''Encrypt=yes;TrustServerCertificate=no;Connection Timeout=30;'' (conn_str env)"
    unfolding c by (simp only: append_assoc [symmetric] suffix_appendI suffix_order.refl)
  show "issued w (fst (get_db_connection f env w)) = [Connect (conn_str env)]"
    by (cases "f (db_table w) (Connect (conn_str env))")
       (simp_all add: get_db_connection_def connect_def logged_def issued_def)
  show "conn_str Map.empty = default_conn_str"
    by (rule conn_str_empty)
  show "conn_str [''SQL_SERVER'' \<mapsto> ''db.internal'', ''SQL_PASSWORD'' \<mapsto> ''s3cret'']
       = ''DRIVER={ODBC Driver 18 for SQL Server};SERVER=db.internal;DATABASE=cms-db;UID=sqladmin;PWD=s3cret;Encrypt=yes;TrustServerCertificate=no;Connection Timeout=30;''"
    by (simp add: conn_str_def getenv_def)
qed

end
